theory Spec2Isabelle
  imports Complex_Main
begin

section \<open>quVario: variational energy of hydrogen and the Monte Carlo integrator\<close>

text \<open>
  The development follows \<^verbatim>\<open>helium_marki/hydr_var.py\<close> and
  \<^verbatim>\<open>helium_markii/optipack.py\<close>.

  Conventions of the embedding.
  \<^item> A Python float is a \<^typ>\<open>real\<close>: rounding, infinities and NaN are not represented.
    The one piece of float behaviour the program relies on, the \<^verbatim>\<open>ZeroDivisionError\<close> that
    \<^verbatim>\<open>/\<close> raises on a zero divisor, is written out in \<open>py_truediv\<close>.
  \<^item> An exception is a value \<open>Inl e\<close> of a sum type; a normal return is \<open>Inr v\<close>.
  \<^item> The SymPy and SciPy routines the program calls (\<^verbatim>\<open>parse_expr\<close>, \<^verbatim>\<open>lambdify\<close>,
    \<^verbatim>\<open>quad\<close>, \<^verbatim>\<open>fmin\<close>) are not part of the repository. They are parameters of the
    model, so every theorem holds for whatever these routines compute.
  \<^item> A SymPy expression is a term of the datatype \<open>expr\<close>, with one constructor for each
    SymPy operation the program applies. The term records which operations were applied and
    in which order; \<open>eval\<close> gives the number it denotes.
\<close>

subsection \<open>Exceptions\<close>

datatype error =
    ZeroDivisionError
  | ValueError
  | FileNotFoundError
  | SympifyError
  | LambdifyError
  | IntegrationError
  | IndexError
  | UnboundLocalError

subsection \<open>Symbolic expressions\<close>

text \<open>
  \<open>BaseScalar_r\<close> is \<^verbatim>\<open>R.r\<close>, the radial base scalar of
  \<^verbatim>\<open>R = CoordSys3D('R', transformation = 'spherical')\<close>. \<open>Laplacian f\<close> is the value of
  \<^verbatim>\<open>delop.dot(delop(f)).doit()\<close> with \<^verbatim>\<open>delop = Del()\<close>.
\<close>

datatype expr =
    Integer int
  | Float real
  | Symbol string
  | BaseScalar_r
  | Add expr expr
  | Sub expr expr
  | Mul expr expr
  | Div expr expr
  | Pow expr nat
  | Exp expr
  | Conjugate expr
  | Simplify expr
  | Laplacian expr

text \<open>
  The denotation of an expression at a real radius \<open>r\<close>, with real values \<open>env\<close> for its
  symbols. \<open>L\<close> is the Laplacian of the coordinate system acting on radial functions; it
  belongs to SymPy and stays a parameter. Simplification keeps the denotation, and the
  conjugate of a real value is the value.
\<close>

primrec eval :: "((real \<Rightarrow> real) \<Rightarrow> real \<Rightarrow> real) \<Rightarrow> (string \<Rightarrow> real) \<Rightarrow> expr \<Rightarrow> real \<Rightarrow> real" where
  "eval L env (Integer n) = (\<lambda>r. of_int n)"
| "eval L env (Float x) = (\<lambda>r. x)"
| "eval L env (Symbol s) = (\<lambda>r. env s)"
| "eval L env BaseScalar_r = (\<lambda>r. r)"
| "eval L env (Add x y) = (\<lambda>r. eval L env x r + eval L env y r)"
| "eval L env (Sub x y) = (\<lambda>r. eval L env x r - eval L env y r)"
| "eval L env (Mul x y) = (\<lambda>r. eval L env x r * eval L env y r)"
| "eval L env (Div x y) = (\<lambda>r. eval L env x r / eval L env y r)"
| "eval L env (Pow x n) = (\<lambda>r. eval L env x r ^ n)"
| "eval L env (Exp x) = (\<lambda>r. exp (eval L env x r))"
| "eval L env (Conjugate x) = eval L env x"
| "eval L env (Simplify x) = eval L env x"
| "eval L env (Laplacian x) = L (eval L env x)"

subsection \<open>The Hamiltonian\<close>

text \<open>\<^verbatim>\<open>del2 = delop.dot(delop(f)).doit()\<close>\<close>

definition del2 :: "expr \<Rightarrow> expr" where
  "del2 f = Laplacian f"

text \<open>
  \<^verbatim>\<open>H = - 1 / 2 * del2(psi) - 1 / R.r * psi\<close>. Python reads this as
  \<^verbatim>\<open>(((-1) / 2) * del2(psi)) - ((1 / R.r) * psi)\<close>; \<^verbatim>\<open>(-1) / 2\<close> is the float \<open>-0.5\<close>.
\<close>

definition H :: "expr \<Rightarrow> expr" where
  "H psi = Sub (Mul (Float ((- 1) / 2)) (del2 psi)) (Mul (Div (Integer 1) BaseScalar_r) psi)"

text \<open>\<^verbatim>\<open>jacobian = R.r ** 2\<close>\<close>

definition jacobian :: expr where
  "jacobian = Pow BaseScalar_r 2"

subsection \<open>The variational integrals\<close>

text \<open>Python's \<^verbatim>\<open>x / y\<close> on floats.\<close>

definition py_truediv :: "real \<Rightarrow> real \<Rightarrow> error + real" where
  "py_truediv x y = (if y = 0 then Inl ZeroDivisionError else Inr (x / y))"

text \<open>
  A lambdified integrand maps (radius, parameter) to a number.
\<close>

type_synonym callable = "real \<Rightarrow> real \<Rightarrow> real"

text \<open>
  The library routines, as the program calls them:
  \<^item> \<^verbatim>\<open>parse_expr(line)\<close> returns an expression or raises;
  \<^item> \<^verbatim>\<open>lambdify((R.r, alpha), e, 'scipy')\<close> returns a callable or raises;
  \<^item> \<^verbatim>\<open>quad(func, lo, hi, args=(a))\<close> returns the pair (value, error estimate) or raises;
  \<^item> \<^verbatim>\<open>fmin(func, x0, args, disp=0, full_output=1)[0:2]\<close> returns the pair
    (minimiser, minimum) or raises; the objective it is handed may raise itself.
\<close>

record backend =
  parse_expr :: "string \<Rightarrow> error + expr"
  lambdify :: "expr \<Rightarrow> error + callable"
  quad :: "callable \<Rightarrow> real \<Rightarrow> real \<Rightarrow> real \<Rightarrow> error + (real \<times> real)"
  fmin :: "(real \<Rightarrow> error + real) \<Rightarrow> real \<Rightarrow> error + (real \<times> real)"

text \<open>
  \<^verbatim>\<open>expectation_integral = quad(expectation_lamb, 0, endpt, args=(a))\<close>,
  \<^verbatim>\<open>return expectation_integral[0]\<close>. The argument \<open>stpt\<close> is not used.
\<close>

definition expectation_intgrl :: "backend \<Rightarrow> callable \<Rightarrow> real \<Rightarrow> real \<Rightarrow> real \<Rightarrow> error + real" where
  "expectation_intgrl be expectation_lamb a stpt endpt =
     (case quad be expectation_lamb 0 endpt a of
        Inl e \<Rightarrow> Inl e
      | Inr expectation_integral \<Rightarrow> Inr (fst expectation_integral))"

text \<open>
  \<^verbatim>\<open>norm_intgrl = quad(norm_lamb, stpt, endpt, args = (a))\<close>,
  \<^verbatim>\<open>N_squared = 1 / norm_intgrl[0]\<close>.
\<close>

definition norm_intgrl :: "backend \<Rightarrow> callable \<Rightarrow> real \<Rightarrow> real \<Rightarrow> real \<Rightarrow> error + real" where
  "norm_intgrl be norm_lamb a stpt endpt =
     (case quad be norm_lamb stpt endpt a of
        Inl e \<Rightarrow> Inl e
      | Inr norm_integral \<Rightarrow> py_truediv 1 (fst norm_integral))"

text \<open>
  \<^verbatim>\<open>var_intgrl = (norm_intgrl(norm_lamb, a, stpt, endpt) *
  expectation_intgrl(expectation_lamb, a, stpt, endpt))\<close>: the left factor is evaluated
  first.
\<close>

definition var_intgrl :: "backend \<Rightarrow> real \<Rightarrow> callable \<Rightarrow> callable \<Rightarrow> real \<Rightarrow> real \<Rightarrow> error + real" where
  "var_intgrl be a expectation_lamb norm_lamb stpt endpt =
     (case norm_intgrl be norm_lamb a stpt endpt of
        Inl e \<Rightarrow> Inl e
      | Inr N_squared \<Rightarrow>
          (case expectation_intgrl be expectation_lamb a stpt endpt of
             Inl e \<Rightarrow> Inl e
           | Inr expectation \<Rightarrow> Inr (N_squared * expectation)))"

subsection \<open>The pipeline for one trial function\<close>

text \<open>
  \<^verbatim>\<open>expectation = simplify(conjugate(psi) * H(psi))\<close> and the argument
  \<^verbatim>\<open>expectation * jacobian\<close> of the first \<^verbatim>\<open>lambdify\<close>.
\<close>

definition expectation_integrand :: "expr \<Rightarrow> expr" where
  "expectation_integrand psi = Mul (Simplify (Mul (Conjugate psi) (H psi))) jacobian"

text \<open>
  \<^verbatim>\<open>norm = conjugate(psi) * psi\<close> and the argument \<^verbatim>\<open>norm * jacobian\<close> of the second
  \<^verbatim>\<open>lambdify\<close>.
\<close>

definition norm_integrand :: "expr \<Rightarrow> expr" where
  "norm_integrand psi = Mul (Mul (Conjugate psi) psi) jacobian"

text \<open>
  \<^verbatim>\<open>energy(psi)\<close>: both integrands are lambdified, then \<^verbatim>\<open>fmin\<close> minimises
  \<^verbatim>\<open>var_intgrl\<close> from \<^verbatim>\<open>initial_guess = 0.1\<close>; \<^verbatim>\<open>var_intgrl\<close> is called with its
  defaults \<^verbatim>\<open>stpt = 0, endpt = 1000\<close>.
\<close>

definition energy :: "backend \<Rightarrow> expr \<Rightarrow> error + (real \<times> real)" where
  "energy be psi =
     (case lambdify be (expectation_integrand psi) of
        Inl e \<Rightarrow> Inl e
      | Inr expectation_lamb \<Rightarrow>
          (case lambdify be (norm_integrand psi) of
             Inl e \<Rightarrow> Inl e
           | Inr norm_lamb \<Rightarrow>
               (let initial_guess = 1 / 10
                in fmin be (\<lambda>a. var_intgrl be a expectation_lamb norm_lamb 0 1000) initial_guess)))"

subsection \<open>Reading the trial functions\<close>

text \<open>\<^verbatim>\<open>x.subs(symbols('r'), R.r)\<close>\<close>

primrec subs_r :: "expr \<Rightarrow> expr" where
  "subs_r (Integer n) = Integer n"
| "subs_r (Float x) = Float x"
| "subs_r (Symbol s) = (if s = ''r'' then BaseScalar_r else Symbol s)"
| "subs_r BaseScalar_r = BaseScalar_r"
| "subs_r (Add x y) = Add (subs_r x) (subs_r y)"
| "subs_r (Sub x y) = Sub (subs_r x) (subs_r y)"
| "subs_r (Mul x y) = Mul (subs_r x) (subs_r y)"
| "subs_r (Div x y) = Div (subs_r x) (subs_r y)"
| "subs_r (Pow x n) = Pow (subs_r x) n"
| "subs_r (Exp x) = Exp (subs_r x)"
| "subs_r (Conjugate x) = Conjugate (subs_r x)"
| "subs_r (Simplify x) = Simplify (subs_r x)"
| "subs_r (Laplacian x) = Laplacian (subs_r x)"

text \<open>
  The loop \<^verbatim>\<open>for line in f\<close> of \<^verbatim>\<open>readtrialfuncs\<close>, with the list \<^verbatim>\<open>trialfuncs\<close>
  built so far.
\<close>

fun readtrialfuncs_loop :: "backend \<Rightarrow> string list \<Rightarrow> expr list \<Rightarrow> error + expr list" where
  "readtrialfuncs_loop be [] trialfuncs = Inr trialfuncs"
| "readtrialfuncs_loop be (line # rest) trialfuncs =
     (case parse_expr be line of
        Inl e \<Rightarrow> Inl e
      | Inr x \<Rightarrow> readtrialfuncs_loop be rest (trialfuncs @ [subs_r x]))"

text \<open>
  The file system maps a file name to the lines of the file; \<^verbatim>\<open>open\<close> raises on a name
  that is not there.
\<close>

definition readtrialfuncs :: "backend \<Rightarrow> (string \<rightharpoonup> string list) \<Rightarrow> string \<Rightarrow> error + expr list" where
  "readtrialfuncs be fs txtdoc =
     (case fs txtdoc of
        None \<Rightarrow> Inl FileNotFoundError
      | Some f \<Rightarrow> readtrialfuncs_loop be f [])"

subsection \<open>The driver\<close>

text \<open>
  What \<^verbatim>\<open>print\<close> has written: the header \<^verbatim>\<open>'In atomic units,'\<close>, one line for each trial
  function with its optimised parameter and energy, and the closing line of the script
  with the value \<^verbatim>\<open>main()\<close> returned.
\<close>

datatype printed =
    In_atomic_units
  | For_psi expr real real
  | The_overall real

text \<open>Python's \<^verbatim>\<open>min\<close> of a list: the first of the smallest elements, \<^verbatim>\<open>ValueError\<close> on \<^verbatim>\<open>[]\<close>.\<close>

fun min_loop :: "real \<Rightarrow> real list \<Rightarrow> real" where
  "min_loop m [] = m"
| "min_loop m (x # xs) = min_loop (if x < m then x else m) xs"

fun py_min :: "real list \<Rightarrow> error + real" where
  "py_min [] = Inl ValueError"
| "py_min (x # xs) = Inr (min_loop x xs)"

text \<open>
  The loop \<^verbatim>\<open>for psi in readtrialfuncs()\<close> of \<^verbatim>\<open>main\<close>, with the list \<^verbatim>\<open>energies\<close> and
  the output so far. An exception leaves the loop with the output written until then.
\<close>

fun main_loop :: "backend \<Rightarrow> expr list \<Rightarrow> real list \<Rightarrow> printed list \<Rightarrow> printed list \<times> (error + real list)" where
  "main_loop be [] energies out = (out, Inr energies)"
| "main_loop be (psi # rest) energies out =
     (case energy be psi of
        Inl e \<Rightarrow> (out, Inl e)
      | Inr (alpha_op, energy_min) \<Rightarrow>
          main_loop be rest (energies @ [energy_min]) (out @ [For_psi psi alpha_op energy_min]))"

text \<open>
  \<^verbatim>\<open>main()\<close> returns the output and either the exception or \<^verbatim>\<open>overall_energy_min\<close>.
  The header is printed before \<^verbatim>\<open>readtrialfuncs()\<close> is called.
\<close>

definition main :: "backend \<Rightarrow> (string \<rightharpoonup> string list) \<Rightarrow> printed list \<times> (error + real)" where
  "main be fs =
     (let out = [In_atomic_units]
      in case readtrialfuncs be fs ''hydr_var_trialfuncs.txt'' of
           Inl e \<Rightarrow> (out, Inl e)
         | Inr trialfuncs \<Rightarrow>
             (case main_loop be trialfuncs [] out of
                (out', Inl e) \<Rightarrow> (out', Inl e)
              | (out', Inr energies) \<Rightarrow> (out', py_min energies)))"

text \<open>The last statement of the script: \<^verbatim>\<open>print('... %f.' % main())\<close>.\<close>

definition script :: "backend \<Rightarrow> (string \<rightharpoonup> string list) \<Rightarrow> printed list \<times> (error + unit)" where
  "script be fs =
     (case main be fs of
        (out, Inl e) \<Rightarrow> (out, Inl e)
      | (out, Inr overall_energy_min) \<Rightarrow> (out @ [The_overall overall_energy_min], Inr ()))"

subsection \<open>The claim on the integration domain, in the words of the specification\<close>

text \<open>
  "The expectation integral and the normalization integral are taken over the same radial
  domain, running from 0 to the cutoff \<open>endpt\<close>": each function returns what it computes
  from the quadrature over \<open>[0, endpt]\<close>.
\<close>

definition both_from_zero :: "backend \<Rightarrow> callable \<Rightarrow> callable \<Rightarrow> real \<Rightarrow> real \<Rightarrow> real \<Rightarrow> bool" where
  "both_from_zero be expectation_lamb norm_lamb a stpt endpt \<longleftrightarrow>
     expectation_intgrl be expectation_lamb a stpt endpt =
       (case quad be expectation_lamb 0 endpt a of Inl e \<Rightarrow> Inl e | Inr v \<Rightarrow> Inr (fst v)) \<and>
     norm_intgrl be norm_lamb a stpt endpt =
       (case quad be norm_lamb 0 endpt a of Inl e \<Rightarrow> Inl e | Inr v \<Rightarrow> py_truediv 1 (fst v))"

subsection \<open>A small backend for evaluation\<close>

text \<open>
  A concrete, coarse instance of the library routines, used to run the model on inputs:
  a parser of three expressions, a central-difference radial Laplacian with unit step
  (exact on polynomials of degree at most two), Simpson's rule on one panel (exact on
  cubics), and a minimiser that stops at its initial guess.
\<close>

definition fd_laplacian :: "(real \<Rightarrow> real) \<Rightarrow> real \<Rightarrow> real" where
  "fd_laplacian f r = (f (r + 1) - 2 * f r + f (r - 1)) + 2 / r * ((f (r + 1) - f (r - 1)) / 2)"

definition test_parse_expr :: "string \<Rightarrow> error + expr" where
  "test_parse_expr line =
     (let s = filter (\<lambda>c. c \<noteq> CHR 0x0A) line
      in if s = ''1'' then Inr (Integer 1)
         else if s = ''0'' then Inr (Integer 0)
         else if s = ''r**2'' then Inr (Pow (Symbol ''r'') 2)
         else Inl SympifyError)"

definition test_lambdify :: "expr \<Rightarrow> error + callable" where
  "test_lambdify e = Inr (\<lambda>r a. eval fd_laplacian (\<lambda>s. a) e r)"

definition test_quad :: "callable \<Rightarrow> real \<Rightarrow> real \<Rightarrow> real \<Rightarrow> error + (real \<times> real)" where
  "test_quad f lo hi a = Inr ((hi - lo) / 6 * (f lo a + 4 * f ((lo + hi) / 2) a + f hi a), 0)"

definition test_fmin :: "(real \<Rightarrow> error + real) \<Rightarrow> real \<Rightarrow> error + (real \<times> real)" where
  "test_fmin f x0 = (case f x0 of Inl e \<Rightarrow> Inl e | Inr v \<Rightarrow> Inr (x0, v))"

definition test_backend :: backend where
  "test_backend =
     \<lparr>parse_expr = test_parse_expr, lambdify = test_lambdify, quad = test_quad, fmin = test_fmin\<rparr>"

text \<open>A file system that holds the trial-function file with the given lines.\<close>

definition test_fs :: "string list \<Rightarrow> (string \<rightharpoonup> string list)" where
  "test_fs f = (\<lambda>name. if name = ''hydr_var_trialfuncs.txt'' then Some f else None)"

text \<open>Integrands: the constants 1 and 0, the weight \<open>r\<^sup>2\<close>, and \<open>r\<^sup>2\<close> scaled by \<open>10\<^sup>-\<^sup>3\<^sup>0\<close>.\<close>

definition one_lamb :: callable where
  "one_lamb r a = 1"

definition zero_lamb :: callable where
  "zero_lamb r a = 0"

definition square_lamb :: callable where
  "square_lamb r a = r ^ 2"

definition tiny_lamb :: callable where
  "tiny_lamb r a = r ^ 2 / 10 ^ 30"

subsection \<open>The Monte Carlo integrator\<close>

text \<open>
  \<^verbatim>\<open>np.random\<close> is a generator with a hidden state. The state is made explicit: \<open>rand\<close>
  is \<^verbatim>\<open>np.random.rand()\<close> and \<open>randint lo hi\<close> is \<^verbatim>\<open>np.random.randint(lo, hi)\<close>, each
  returning the new state with the draw. Both belong to NumPy and stay parameters.
\<close>

record 'g np_random =
  rand :: "'g \<Rightarrow> real \<times> 'g"
  randint :: "nat \<Rightarrow> real \<Rightarrow> 'g \<Rightarrow> error + (nat \<times> 'g)"

type_synonym matrix = "real list list"

text \<open>\<^verbatim>\<open>np.random.rand(3)\<close>: three successive draws.\<close>

definition rand3 :: "'g np_random \<Rightarrow> 'g \<Rightarrow> real list \<times> 'g" where
  "rand3 rng g =
     (let (u1, g1) = rand rng g; (u2, g2) = rand rng g1; (u3, g3) = rand rng g2
      in ([u1, u2, u3], g3))"

text \<open>\<^verbatim>\<open>2.*s*np.random.rand(3) - s\<close>\<close>

definition uniform_row :: "'g np_random \<Rightarrow> real \<Rightarrow> 'g \<Rightarrow> real list \<times> 'g" where
  "uniform_row rng s g = (let (u, g') = rand3 rng g in (map (\<lambda>x. 2 * s * x - s) u, g'))"

text \<open>
  \<^verbatim>\<open>np.reshape(m, (1, dims))[0]\<close>: the rows one after the other; \<^verbatim>\<open>reshape\<close> raises when
  the matrix does not have \<open>dims\<close> entries.
\<close>

definition reshape_flat :: "matrix \<Rightarrow> nat \<Rightarrow> error + real list" where
  "reshape_flat m dims = (if length (concat m) = dims then Inr (concat m) else Inl ValueError)"

text \<open>The loop \<^verbatim>\<open>for i in range(int(dims/3)): initial_matrix[i] = 2.*s*np.random.rand(3) - s\<close>.\<close>

fun init_loop :: "'g np_random \<Rightarrow> real \<Rightarrow> nat list \<Rightarrow> matrix \<Rightarrow> 'g \<Rightarrow> matrix \<times> 'g" where
  "init_loop rng s [] initial_matrix g = (initial_matrix, g)"
| "init_loop rng s (i # rest) initial_matrix g =
     (let (row, g') = uniform_row rng s g
      in init_loop rng s rest (initial_matrix[i := row]) g')"

text \<open>The variables of \<^verbatim>\<open>metropolis_hastings\<close> that its sampling loop updates.\<close>

record 'g mh_state =
  initial_matrix :: matrix
  reject_ratio :: real
  test :: "real list"
  samples :: "real list list"
  gen :: 'g

text \<open>
  One pass of the loop \<^verbatim>\<open>for i in range(iter)\<close>. Reading row \<open>e_index\<close> out of range and
  reading entry 3 of a point with fewer than four entries raise \<^verbatim>\<open>IndexError\<close>; the quotient
  of the two densities raises on a zero divisor. \<^verbatim>\<open>equi_threshold = 0\<close> and \<^verbatim>\<open>therm = 1\<close>.
\<close>

definition mh_step ::
  "'g np_random \<Rightarrow> (real list \<Rightarrow> real \<Rightarrow> real) \<Rightarrow> nat \<Rightarrow> real \<Rightarrow> nat \<Rightarrow> nat \<Rightarrow> 'g mh_state \<Rightarrow> error + 'g mh_state" where
  "mh_step rng pfunc iter alpha dims i st =
     (let s = 3; equi_threshold = 0; therm = 1
      in case randint rng 0 (real dims / 3) (gen st) of
           Inl e \<Rightarrow> Inl e
         | Inr (e_index, g1) \<Rightarrow>
             if \<not> e_index < length (initial_matrix st) then Inl IndexError
             else
               (let (d, g2) = uniform_row rng s g1;
                    trial_matrix = (initial_matrix st)
                      [e_index := map2 (+) (initial_matrix st ! e_index) (map (\<lambda>x. x / (real dims / 3)) d)]
                in case reshape_flat trial_matrix dims of
                     Inl e \<Rightarrow> Inl e
                   | Inr proposed_pt \<Rightarrow>
                       (case reshape_flat (initial_matrix st) dims of
                          Inl e \<Rightarrow> Inl e
                        | Inr initial_pt \<Rightarrow>
                            (case py_truediv (pfunc proposed_pt alpha) (pfunc initial_pt alpha) of
                               Inl e \<Rightarrow> Inl e
                             | Inr p \<Rightarrow>
                                 (let (u, g3) = rand rng g2;
                                      st1 = (if p > u
                                             then st\<lparr>initial_matrix := trial_matrix, gen := g3\<rparr>
                                             else st\<lparr>reject_ratio := reject_ratio st + 1 / real iter, gen := g3\<rparr>)
                                  in if i > equi_threshold \<and> (int i - therm) mod therm = 0
                                     then (case reshape_flat (initial_matrix st1) dims of
                                             Inl e \<Rightarrow> Inl e
                                           | Inr pt \<Rightarrow>
                                               if 3 < length pt
                                               then Inr (st1\<lparr>test := test st1 @ [pt ! 3],
                                                             samples := samples st1 @ [pt]\<rparr>)
                                               else Inl IndexError)
                                     else Inr st1)))))"

fun mh_loop ::
  "'g np_random \<Rightarrow> (real list \<Rightarrow> real \<Rightarrow> real) \<Rightarrow> nat \<Rightarrow> real \<Rightarrow> nat \<Rightarrow> nat list \<Rightarrow> 'g mh_state \<Rightarrow> error + 'g mh_state" where
  "mh_loop rng pfunc iter alpha dims [] st = Inr st"
| "mh_loop rng pfunc iter alpha dims (i # rest) st =
     (case mh_step rng pfunc iter alpha dims i st of
        Inl e \<Rightarrow> Inl e
      | Inr st' \<Rightarrow> mh_loop rng pfunc iter alpha dims rest st')"

text \<open>
  \<^verbatim>\<open>metropolis_hastings(pfunc, iter, alpha, dims)\<close> returns
  \<^verbatim>\<open>samples, reject_ratio, test\<close>, and the generator's new state.
\<close>

definition metropolis_hastings ::
  "'g np_random \<Rightarrow> (real list \<Rightarrow> real \<Rightarrow> real) \<Rightarrow> nat \<Rightarrow> real \<Rightarrow> nat \<Rightarrow> 'g
     \<Rightarrow> error + ((real list list \<times> real \<times> real list) \<times> 'g)" where
  "metropolis_hastings rng pfunc iter alpha dims g =
     (let s = 3; n = dims div 3;
          (m0, g0) = init_loop rng s [0..<n] (replicate n [0, 0, 0]) g
      in case mh_loop rng pfunc iter alpha dims [0..<iter]
                \<lparr>initial_matrix = m0, reject_ratio = 0, test = [], samples = [], gen = g0\<rparr> of
           Inl e \<Rightarrow> Inl e
         | Inr st \<Rightarrow> Inr ((samples st, reject_ratio st, test st), gen st))"

text \<open>
  The loop \<^verbatim>\<open>for array in mc_samples[therm:]\<close> of \<^verbatim>\<open>integrator_mcmc\<close>, with the
  running total \<^verbatim>\<open>sums\<close> (here \<open>qsums\<close>):
  \<^verbatim>\<open>sums += qfunc(array, alpha)\<close> and \<^verbatim>\<open>test.append(qfunc(array, alpha))\<close>.
\<close>

fun q_loop :: "(real list \<Rightarrow> real \<Rightarrow> real) \<Rightarrow> real \<Rightarrow> real list list \<Rightarrow> real \<Rightarrow> real list \<Rightarrow> real \<times> real list" where
  "q_loop qfunc alpha [] qsums tst = (qsums, tst)"
| "q_loop qfunc alpha (array # rest) qsums tst =
     q_loop qfunc alpha rest (qsums + qfunc array alpha) (tst @ [qfunc array alpha])"

text \<open>
  The loop \<^verbatim>\<open>for i in range(walkers)\<close>, with \<^verbatim>\<open>vals\<close>, \<^verbatim>\<open>test\<close> and the values of
  \<^verbatim>\<open>rejects\<close> and \<^verbatim>\<open>p\<close> from the last walker (none before the first). \<^verbatim>\<open>therm = 0\<close>, and
  \<^verbatim>\<open>vals[i] = (sums/(sample_iter - therm))\<close>.
\<close>

fun integrator_loop ::
  "'g np_random \<Rightarrow> (real list \<Rightarrow> real \<Rightarrow> real) \<Rightarrow> (real list \<Rightarrow> real \<Rightarrow> real) \<Rightarrow> nat \<Rightarrow> real \<Rightarrow> nat
     \<Rightarrow> nat list \<Rightarrow> real list \<Rightarrow> real list \<Rightarrow> (real \<times> real list) option \<Rightarrow> 'g
     \<Rightarrow> error + (real list \<times> real list \<times> (real \<times> real list) option \<times> 'g)" where
  "integrator_loop rng pfunc qfunc sample_iter alpha dims [] vals tst last_walker g =
     Inr (vals, tst, last_walker, g)"
| "integrator_loop rng pfunc qfunc sample_iter alpha dims (i # rest) vals tst last_walker g =
     (case metropolis_hastings rng pfunc sample_iter alpha dims g of
        Inl e \<Rightarrow> Inl e
      | Inr ((mc_samples, rejects, p), g') \<Rightarrow>
          (let therm = 0;
               (qsums, tst') = q_loop qfunc alpha (drop therm mc_samples) 0 tst
           in case py_truediv qsums (real sample_iter - real therm) of
                Inl e \<Rightarrow> Inl e
              | Inr v \<Rightarrow>
                  integrator_loop rng pfunc qfunc sample_iter alpha dims rest
                    (vals[i := v]) tst' (Some (rejects, p)) g'))"

text \<open>
  \<^verbatim>\<open>integrator_mcmc(pfunc, qfunc, sample_iter, walkers, alpha, dims)\<close> returns
  \<^verbatim>\<open>vals_avg, std_error, rejects, test, p\<close>, and the generator's new state.
\<close>

definition integrator_mcmc ::
  "'g np_random \<Rightarrow> (real list \<Rightarrow> real \<Rightarrow> real) \<Rightarrow> (real list \<Rightarrow> real \<Rightarrow> real) \<Rightarrow> nat \<Rightarrow> nat \<Rightarrow> real \<Rightarrow> nat \<Rightarrow> 'g
     \<Rightarrow> error + ((real \<times> real \<times> real \<times> real list \<times> real list) \<times> 'g)" where
  "integrator_mcmc rng pfunc qfunc sample_iter walkers alpha dims g =
     (case integrator_loop rng pfunc qfunc sample_iter alpha dims [0..<walkers]
             (replicate walkers 0) [] None g of
        Inl e \<Rightarrow> Inl e
      | Inr (vals, tst, last_walker, g') \<Rightarrow>
          (let vals_squared = sum_list (map (\<lambda>v. v ^ 2) vals)
           in case py_truediv (sum_list vals) (real walkers) of
                Inl e \<Rightarrow> Inl e
              | Inr vals_avg \<Rightarrow>
                  (let variance = vals_squared / real walkers - vals_avg ^ 2;
                       std_error = sqrt (variance / real walkers)
                   in case last_walker of
                        None \<Rightarrow> Inl UnboundLocalError
                      | Some (rejects, p) \<Rightarrow> Inr ((vals_avg, std_error, rejects, tst, p), g'))))"

text \<open>
  A generator for evaluation: its state counts the draws, every uniform draw is \<open>1/2\<close>
  and every integer draw is the lower bound. A density and an observable that are
  constantly 1.
\<close>

definition test_rng :: "nat np_random" where
  "test_rng = \<lparr>rand = (\<lambda>g. (1 / 2, Suc g)), randint = (\<lambda>lo hi g. Inr (lo, Suc g))\<rparr>"

definition one_func :: "real list \<Rightarrow> real \<Rightarrow> real" where
  "one_func pt alpha = 1"

section \<open>Properties\<close>

lemmas test_backend_simps =
  test_backend_def test_quad_def test_fmin_def test_lambdify_def test_parse_expr_def
  fd_laplacian_def one_lamb_def zero_lamb_def square_lamb_def tiny_lamb_def

subsection \<open>The Hamiltonian image\<close>

text \<open>
  Claim C1. For every trial function \<open>psi\<close>, \<open>H psi\<close> is the scalar field
  \<open>-(1/2) \<cdot> Laplacian(psi) - (1/r) \<cdot> psi\<close>: at every radius \<open>r \<noteq> 0\<close>, for every meaning
  \<open>L\<close> of the Laplacian of the spherical system and every value of the symbols, the
  expression that \<open>H\<close> returns denotes \<open>-(1/2) \<cdot> L(psi)(r) - (1/r) \<cdot> psi(r)\<close>.
\<close>

theorem H_scalar_field:
  "r \<noteq> 0 \<Longrightarrow>
   eval L env (H psi) r = - (1 / 2) * L (eval L env psi) r - (1 / r) * eval L env psi r"
  by (simp add: H_def del2_def)

text \<open>
  At \<open>psi = r\<^sup>2\<close> and \<open>r = 2\<close>, with the central-difference Laplacian (exact on \<open>r\<^sup>2\<close>, whose
  Laplacian is 6): \<open>-(1/2) \<cdot> 6 - (1/2) \<cdot> 4 = -5\<close>.
\<close>

theorem H_scalar_field_witness:
  "(2::real) \<noteq> 0 \<and> eval fd_laplacian (\<lambda>s. 1) (H (Pow BaseScalar_r 2)) 2 = - 5"
  using H_scalar_field [of 2 fd_laplacian "\<lambda>s. 1" "Pow BaseScalar_r 2"]
  by (simp add: fd_laplacian_def)

subsection \<open>The variational value\<close>

text \<open>
  Claim C2. For every parameter value \<open>a\<close> and all callables: when the quadrature of the
  normalization integrand returns \<open>I_norm \<noteq> 0\<close> and the quadrature of the expectation
  integrand returns \<open>I_exp\<close>, then \<open>norm_intgrl\<close> returns the inverse \<open>1 / I_norm\<close>,
  \<open>expectation_intgrl\<close> returns \<open>I_exp\<close>, and \<open>var_intgrl\<close> returns their product.
\<close>

theorem var_intgrl_product:
  assumes "quad be norm_lamb stpt endpt a = Inr (I_norm, err_norm)"
    and "I_norm \<noteq> 0"
    and "quad be expectation_lamb 0 endpt a = Inr (I_exp, err_exp)"
  shows "norm_intgrl be norm_lamb a stpt endpt = Inr (1 / I_norm)
       \<and> expectation_intgrl be expectation_lamb a stpt endpt = Inr I_exp
       \<and> var_intgrl be a expectation_lamb norm_lamb stpt endpt = Inr ((1 / I_norm) * I_exp)"
  using assms by (simp add: var_intgrl_def norm_intgrl_def expectation_intgrl_def py_truediv_def)

theorem var_intgrl_product_witness:
  "quad test_backend square_lamb 0 1000 0 = Inr (10 ^ 9 / 3, 0)
   \<and> (10 ^ 9 / 3 :: real) \<noteq> 0
   \<and> quad test_backend one_lamb 0 1000 0 = Inr (1000, 0)
   \<and> norm_intgrl test_backend square_lamb 0 0 1000 = Inr (1 / (10 ^ 9 / 3))
   \<and> expectation_intgrl test_backend one_lamb 0 0 1000 = Inr 1000
   \<and> var_intgrl test_backend 0 one_lamb square_lamb 0 1000 = Inr (1 / (10 ^ 9 / 3) * 1000)"
proof -
  have q1: "quad test_backend square_lamb 0 1000 0 = Inr (10 ^ 9 / 3, 0)"
    by (simp add: test_backend_simps)
  have nz: "(10 ^ 9 / 3 :: real) \<noteq> 0" by simp
  have q2: "quad test_backend one_lamb 0 1000 0 = Inr (1000, 0)"
    by (simp add: test_backend_simps)
  from var_intgrl_product [OF q1 nz q2] q1 nz q2 show ?thesis by blast
qed

subsection \<open>The integration domain\<close>

text \<open>
  Claim C4, as amended. The normalization integral is taken over \<open>[stpt, endpt]\<close>: it is
  the inverse of the quadrature from \<open>stpt\<close> to \<open>endpt\<close>. With \<open>stpt = 0\<close>, the default
  that the optimizer's calls use, the expectation integral and the normalization
  integral are both taken from 0 to \<open>endpt\<close>.
\<close>

theorem integrals_domain:
  "norm_intgrl be norm_lamb a stpt endpt =
     (case quad be norm_lamb stpt endpt a of Inl e \<Rightarrow> Inl e | Inr v \<Rightarrow> py_truediv 1 (fst v))
   \<and> both_from_zero be expectation_lamb norm_lamb a 0 endpt"
  by (simp add: both_from_zero_def norm_intgrl_def expectation_intgrl_def)

text \<open>
  The statement for every choice of bounds fails at \<open>stpt = 1\<close>, \<open>endpt = 4\<close> on the
  integrand 1: the normalization integral is taken over \<open>[1, 4]\<close> and \<open>norm_intgrl\<close>
  returns \<open>1/3\<close>, not the \<open>1/4\<close> of the domain \<open>[0, 4]\<close>.
\<close>

theorem both_from_zero_counterexample:
  "\<not> both_from_zero test_backend one_lamb one_lamb 0 1 4"
  by (simp add: both_from_zero_def norm_intgrl_def expectation_intgrl_def py_truediv_def
      test_backend_simps)

subsection \<open>Division by the normalization integral\<close>

text \<open>
  Claim C5, as amended. When the quadrature of the normalization integrand returns the
  value \<open>v\<close>, \<open>norm_intgrl\<close> fails with the division error exactly when \<open>v\<close> is zero, and
  returns \<open>1 / v\<close> for every other \<open>v\<close>, however small and of either sign.
\<close>

theorem norm_intgrl_division_error:
  assumes "quad be norm_lamb stpt endpt a = Inr (v, err)"
  shows "norm_intgrl be norm_lamb a stpt endpt = (if v = 0 then Inl ZeroDivisionError else Inr (1 / v))"
  using assms by (simp add: norm_intgrl_def py_truediv_def)

theorem norm_intgrl_division_error_witness:
  "quad test_backend zero_lamb 0 1000 0 = Inr (0, 0)
   \<and> norm_intgrl test_backend zero_lamb 0 0 1000 = Inl ZeroDivisionError"
proof -
  have q: "quad test_backend zero_lamb 0 1000 0 = Inr (0, 0)"
    by (simp add: test_backend_simps)
  from norm_intgrl_division_error [OF q] q show ?thesis by simp
qed

text \<open>
  A normalization integral of \<open>1 / (3 \<cdot> 10\<^sup>2\<^sup>1)\<close>, far below the tolerance of any quadrature,
  is not an error: \<open>norm_intgrl\<close> returns \<open>3 \<cdot> 10\<^sup>2\<^sup>1\<close>. A negative one (the bounds swapped) is
  not an error either.
\<close>

theorem norm_intgrl_near_zero_counterexample:
  "quad test_backend tiny_lamb 0 1000 0 = Inr (1 / (3 * 10 ^ 21), 0)
   \<and> norm_intgrl test_backend tiny_lamb 0 0 1000 = Inr (3 * 10 ^ 21)
   \<and> quad test_backend square_lamb 1000 0 0 = Inr (- (10 ^ 9 / 3), 0)
   \<and> norm_intgrl test_backend square_lamb 0 1000 0 = Inr (- (3 / 10 ^ 9))"
  by (simp add: norm_intgrl_def py_truediv_def test_backend_simps)

subsection \<open>The integrands\<close>

text \<open>
  Claim C6, as amended. For every trial function \<open>psi\<close>, \<open>energy\<close> lambdifies
  \<open>simplify(conjugate(psi) \<cdot> H(psi)) \<cdot> r\<^sup>2\<close> and \<open>(conjugate(psi) \<cdot> psi) \<cdot> r\<^sup>2\<close>: simplification
  is applied to the expectation integrand only, and both are multiplied by the Jacobian
  \<open>r\<^sup>2\<close> before the numeric reduction.
\<close>

theorem integrands_built:
  "energy be psi =
     (case lambdify be (Mul (Simplify (Mul (Conjugate psi) (H psi))) (Pow BaseScalar_r 2)) of
        Inl e \<Rightarrow> Inl e
      | Inr expectation_lamb \<Rightarrow>
          (case lambdify be (Mul (Mul (Conjugate psi) psi) (Pow BaseScalar_r 2)) of
             Inl e \<Rightarrow> Inl e
           | Inr norm_lamb \<Rightarrow>
               fmin be (\<lambda>a. var_intgrl be a expectation_lamb norm_lamb 0 1000) (1 / 10)))
   \<and> eval L env (expectation_integrand psi) r = eval L env psi r * eval L env (H psi) r * r ^ 2
   \<and> eval L env (norm_integrand psi) r = eval L env psi r * eval L env psi r * r ^ 2"
  unfolding energy_def expectation_integrand_def norm_integrand_def jacobian_def Let_def
  by simp

text \<open>
  The normalization integrand of the trial function 1 is not the simplified product
  times the Jacobian.
\<close>

theorem norm_simplified_counterexample:
  "norm_integrand (Integer 1) \<noteq> Mul (Simplify (Mul (Conjugate (Integer 1)) (Integer 1))) jacobian"
  by (simp add: norm_integrand_def)

subsection \<open>The empty file\<close>

text \<open>
  Claim C10. If the trial-function file has no line, \<open>main\<close> fails with the error of the
  minimum of an empty list; nothing but the header has been printed, and the script prints
  no overall energy.
\<close>

theorem main_empty_file:
  assumes "fs ''hydr_var_trialfuncs.txt'' = Some []"
  shows "main be fs = ([In_atomic_units], Inl ValueError)
       \<and> script be fs = ([In_atomic_units], Inl ValueError)"
  using assms by (simp add: script_def main_def readtrialfuncs_def)

theorem main_empty_file_witness:
  "test_fs [] ''hydr_var_trialfuncs.txt'' = Some []
   \<and> main test_backend (test_fs []) = ([In_atomic_units], Inl ValueError)
   \<and> script test_backend (test_fs []) = ([In_atomic_units], Inl ValueError)"
proof -
  have f: "test_fs [] ''hydr_var_trialfuncs.txt'' = Some []"
    by (simp add: test_fs_def)
  from main_empty_file [of "test_fs []" test_backend] f show ?thesis by simp
qed

subsection \<open>Runs of the driver\<close>

text \<open>The loops of \<open>readtrialfuncs\<close> and \<open>main\<close> on inputs that succeed, and Python's \<open>min\<close>.\<close>

lemma readtrialfuncs_loop_ok:
  "list_all2 (\<lambda>line x. parse_expr be line = Inr x) f xs \<Longrightarrow>
   readtrialfuncs_loop be f acc = Inr (acc @ map subs_r xs)"
  by (induction f xs arbitrary: acc rule: list_all2_induct) simp_all

lemma main_loop_ok:
  "list_all2 (\<lambda>psi res. energy be psi = Inr res) psis results \<Longrightarrow>
   main_loop be psis energies out =
     (out @ map2 (\<lambda>psi (alpha_op, energy_min). For_psi psi alpha_op energy_min) psis results,
      Inr (energies @ map snd results))"
proof (induction psis results arbitrary: energies out rule: list_all2_induct)
  case Nil
  show ?case by simp
next
  case (Cons psi psis res results)
  obtain a en where res: "res = (a, en)" by (cases res)
  from Cons.hyps(1) res have "energy be psi = Inr (a, en)" by simp
  then show ?case using Cons.IH res by simp
qed

lemma main_loop_fail:
  assumes "list_all2 (\<lambda>psi res. energy be psi = Inr res) pre results"
    and "energy be bad = Inl e"
  shows "main_loop be (pre @ bad # post) energies out =
     (out @ map2 (\<lambda>psi (alpha_op, energy_min). For_psi psi alpha_op energy_min) pre results, Inl e)"
  using assms
proof (induction pre results arbitrary: energies out rule: list_all2_induct)
  case Nil
  then show ?case by simp
next
  case (Cons psi psis res results)
  obtain a en where res: "res = (a, en)" by (cases res)
  from Cons.hyps(1) res have "energy be psi = Inr (a, en)" by simp
  then show ?case using Cons.IH [OF Cons.prems] res by simp
qed

lemma min_loop_Min: "min_loop m xs = Min (set (m # xs))"
proof (induction xs arbitrary: m)
  case Nil
  show ?case by simp
next
  case (Cons x xs)
  have "Min (set (m # x # xs)) = Min (set ((if x < m then x else m) # xs))"
    by (cases xs) (auto simp: min_def)
  then show ?case using Cons.IH by simp
qed

lemma py_min_Min: "xs \<noteq> [] \<Longrightarrow> py_min xs = Inr (Min (set xs))"
  by (cases xs) (simp_all add: min_loop_Min del: set_simps)

text \<open>The pipeline on the trial functions 1, 0 and \<open>r\<^sup>2\<close> with the evaluation backend.\<close>

lemma energy_one: "energy test_backend (Integer 1) = Inr (1 / 10, - (3 / 2000))"
  by (simp add: energy_def expectation_integrand_def norm_integrand_def H_def del2_def
      jacobian_def var_intgrl_def norm_intgrl_def expectation_intgrl_def py_truediv_def
      test_backend_simps)

lemma energy_zero: "energy test_backend (Integer 0) = Inl ZeroDivisionError"
  by (simp add: energy_def expectation_integrand_def norm_integrand_def H_def del2_def
      jacobian_def var_intgrl_def norm_intgrl_def expectation_intgrl_def py_truediv_def
      test_backend_simps)

lemma energy_square: "energy test_backend (Pow BaseScalar_r 2) = Inr (1 / 10, - (903 / 850000))"
  by (simp add: energy_def expectation_integrand_def norm_integrand_def H_def del2_def
      jacobian_def var_intgrl_def norm_intgrl_def expectation_intgrl_def py_truediv_def
      test_backend_simps)

lemma parse_nl: "parse_expr test_backend ''1\<newline>'' = Inr (Integer 1)"
   "parse_expr test_backend ''r**2\<newline>'' = Inr (Pow (Symbol ''r'') 2)"
   "parse_expr test_backend ''0\<newline>'' = Inr (Integer 0)"
  by (simp_all add: test_backend_simps)

text \<open>
  Claim C3. Given a trial-function file with \<open>N \<ge> 1\<close> lines, each of which parses and
  each of whose pipelines returns, \<open>main\<close> runs the pipeline on the \<open>N\<close> trial functions
  in file order, prints after the header exactly \<open>N\<close> results (trial function, optimized
  parameter, energy) in that order, and returns the minimum of the \<open>N\<close> energies.
\<close>

theorem main_all_candidates:
  assumes "fs ''hydr_var_trialfuncs.txt'' = Some f"
    and "f \<noteq> []"
    and "list_all2 (\<lambda>line x. parse_expr be line = Inr x) f xs"
    and "list_all2 (\<lambda>x res. energy be (subs_r x) = Inr res) xs results"
  shows "main be fs =
           (In_atomic_units #
              map2 (\<lambda>x (alpha_op, energy_min). For_psi (subs_r x) alpha_op energy_min) xs results,
            Inr (Min (set (map snd results))))
       \<and> length results = length f"
proof -
  have len: "length xs = length f" "length results = length xs"
    using assms(3,4) by (simp_all add: list_all2_lengthD)
  have read: "readtrialfuncs be fs ''hydr_var_trialfuncs.txt'' = Inr (map subs_r xs)"
    using assms(1) readtrialfuncs_loop_ok [OF assms(3), of "[]"] by (simp add: readtrialfuncs_def)
  have "list_all2 (\<lambda>psi res. energy be psi = Inr res) (map subs_r xs) results"
    using assms(4) by (simp add: list_all2_map1)
  from main_loop_ok [OF this, of "[]" "[In_atomic_units]"]
  have loop: "main_loop be (map subs_r xs) [] [In_atomic_units] =
      (In_atomic_units #
         map2 (\<lambda>x (alpha_op, energy_min). For_psi (subs_r x) alpha_op energy_min) xs results,
       Inr (map snd results))"
    by (simp add: zip_map1 case_prod_unfold)
  have "map snd results \<noteq> []" using len assms(2) by auto
  then have "py_min (map snd results) = Inr (Min (set (map snd results)))"
    by (rule py_min_Min)
  then show ?thesis using read loop len by (simp add: main_def)
qed

theorem main_all_candidates_witness:
  "main test_backend (test_fs [''1\<newline>'', ''r**2\<newline>'']) =
     ([In_atomic_units,
       For_psi (Integer 1) (1 / 10) (- (3 / 2000)),
       For_psi (Pow BaseScalar_r 2) (1 / 10) (- (903 / 850000))],
      Inr (- (3 / 2000)))
   \<and> length [(1 / 10 :: real, - (3 / 2000) :: real), (1 / 10, - (903 / 850000))]
       = length [''1\<newline>'', ''r**2\<newline>'']"
proof -
  have h1: "test_fs [''1\<newline>'', ''r**2\<newline>''] ''hydr_var_trialfuncs.txt''
      = Some [''1\<newline>'', ''r**2\<newline>'']"
    by (simp add: test_fs_def)
  have h2: "[''1\<newline>'', ''r**2\<newline>''] \<noteq> []" by simp
  have h3: "list_all2 (\<lambda>line x. parse_expr test_backend line = Inr x)
      [''1\<newline>'', ''r**2\<newline>''] [Integer 1, Pow (Symbol ''r'') 2]"
    by (simp add: test_backend_simps)
  have h4: "list_all2 (\<lambda>x res. energy test_backend (subs_r x) = Inr res)
      [Integer 1, Pow (Symbol ''r'') 2] [(1 / 10, - (3 / 2000)), (1 / 10, - (903 / 850000))]"
    by (simp add: energy_one energy_square)
  from main_all_candidates
         [where fs = "test_fs [''1\<newline>'', ''r**2\<newline>'']" and be = test_backend, OF h1 h2 h3 h4]
  show ?thesis by simp
qed

text \<open>
  Claim C7, as amended. If the pipeline of a trial function raises an error, \<open>main\<close>
  raises that error: no later candidate is evaluated or printed and no overall minimum is
  returned or printed. The results of the candidates before the failing one have been
  printed by then.
\<close>

theorem main_aborts:
  assumes "readtrialfuncs be fs ''hydr_var_trialfuncs.txt'' = Inr (pre @ bad # post)"
    and "list_all2 (\<lambda>psi res. energy be psi = Inr res) pre results"
    and "energy be bad = Inl e"
  shows "main be fs =
           (In_atomic_units #
              map2 (\<lambda>psi (alpha_op, energy_min). For_psi psi alpha_op energy_min) pre results,
            Inl e)
       \<and> script be fs =
           (In_atomic_units #
              map2 (\<lambda>psi (alpha_op, energy_min). For_psi psi alpha_op energy_min) pre results,
            Inl e)"
  using assms(1) main_loop_fail [OF assms(2,3), of post "[]" "[In_atomic_units]"]
  by (simp add: main_def script_def)

theorem main_aborts_witness:
  "main test_backend (test_fs [''1\<newline>'', ''0\<newline>'', ''r**2\<newline>'']) =
     ([In_atomic_units, For_psi (Integer 1) (1 / 10) (- (3 / 2000))], Inl ZeroDivisionError)
   \<and> script test_backend (test_fs [''1\<newline>'', ''0\<newline>'', ''r**2\<newline>'']) =
     ([In_atomic_units, For_psi (Integer 1) (1 / 10) (- (3 / 2000))], Inl ZeroDivisionError)"
proof -
  have h1: "readtrialfuncs test_backend (test_fs [''1\<newline>'', ''0\<newline>'', ''r**2\<newline>''])
      ''hydr_var_trialfuncs.txt'' = Inr ([Integer 1] @ Integer 0 # [Pow BaseScalar_r 2])"
    by (simp add: readtrialfuncs_def test_fs_def test_backend_simps)
  have h2: "list_all2 (\<lambda>psi res. energy test_backend psi = Inr res)
      [Integer 1] [(1 / 10, - (3 / 2000))]"
    by (simp add: energy_one)
  from main_aborts [OF h1 h2 energy_zero] show ?thesis by simp
qed

text \<open>
  With the trial functions 1 and 0 the second pipeline divides by a zero normalization
  integral; the result of the first has been reported when the run aborts.
\<close>

theorem partial_result_counterexample:
  "script test_backend (test_fs [''1\<newline>'', ''0\<newline>'']) =
     ([In_atomic_units, For_psi (Integer 1) (1 / 10) (- (3 / 2000))], Inl ZeroDivisionError)"
  by (simp add: script_def main_def readtrialfuncs_def test_fs_def energy_one energy_zero
      parse_nl)

subsection \<open>The mean returned by the integrator\<close>

text \<open>
  A run with the evaluation generator: two iterations, one walker, six dimensions, the
  density and the observable constantly 1. The sampler returns one sample, the sum of the
  observable over it is 1, and the value of the walker is \<open>1/2\<close>.
\<close>

lemma rand_test: "rand test_rng g = (1 / 2, Suc g)" "randint test_rng lo hi g = Inr (lo, Suc g)"
  by (simp_all add: test_rng_def)

lemma row_test: "uniform_row test_rng 3 g = ([0, 0, 0], Suc (Suc (Suc g)))"
  by (simp add: uniform_row_def rand3_def rand_test)

lemma init_test:
  "init_loop test_rng 3 [0..<2] (replicate 2 [0, 0, 0]) g = ([[0, 0, 0], [0, 0, 0]], g + 6)"
  by (simp add: upt_rec numeral_2_eq_2 row_test)

lemma step_test0:
  "mh_step test_rng one_func 2 alpha 6 0
     \<lparr>initial_matrix = [[0, 0, 0], [0, 0, 0]], reject_ratio = 0, test = [], samples = [], gen = g\<rparr>
   = Inr \<lparr>initial_matrix = [[0, 0, 0], [0, 0, 0]], reject_ratio = 0, test = [], samples = [], gen = g + 5\<rparr>"
  by (simp add: mh_step_def rand_test row_test reshape_flat_def py_truediv_def one_func_def)

lemma step_test1:
  "mh_step test_rng one_func 2 alpha 6 (Suc 0)
     \<lparr>initial_matrix = [[0, 0, 0], [0, 0, 0]], reject_ratio = 0, test = [], samples = [], gen = g\<rparr>
   = Inr \<lparr>initial_matrix = [[0, 0, 0], [0, 0, 0]], reject_ratio = 0, test = [0],
          samples = [[0, 0, 0, 0, 0, 0]], gen = g + 5\<rparr>"
  by (simp add: mh_step_def rand_test row_test reshape_flat_def py_truediv_def one_func_def)

lemma loop_test:
  "mh_loop test_rng one_func 2 alpha 6 [0..<2]
     \<lparr>initial_matrix = [[0, 0, 0], [0, 0, 0]], reject_ratio = 0, test = [], samples = [], gen = g\<rparr>
   = Inr \<lparr>initial_matrix = [[0, 0, 0], [0, 0, 0]], reject_ratio = 0, test = [0],
          samples = [[0, 0, 0, 0, 0, 0]], gen = g + 10\<rparr>"
proof -
  have "[0..<2] = [0, Suc 0]" by (simp add: upt_rec)
  then show ?thesis by (simp add: step_test0 step_test1)
qed

lemma mh_test:
  "metropolis_hastings test_rng one_func 2 alpha 6 g = Inr (([[0, 0, 0, 0, 0, 0]], 0, [0]), g + 16)"
proof -
  have d: "(6::nat) div 3 = 2" by simp
  show ?thesis
    unfolding metropolis_hastings_def Let_def d init_test prod.case loop_test by simp
qed

lemma integrator_mcmc_two_iterations:
  "integrator_mcmc test_rng one_func one_func 2 1 alpha 6 0 =
     Inr ((1 / 2, 0, 0, [1], [0]), 16)"
proof -
  have "[0..<1] = [0]" by (simp add: upt_rec)
  then show ?thesis
    by (simp add: integrator_mcmc_def mh_test py_truediv_def one_func_def)
qed

text \<open>
  The sampler appends a sample in every pass but the first (\<open>i > equi_threshold\<close> with
  \<open>equi_threshold = 0\<close>): it returns \<open>iter - 1\<close> samples.
\<close>

lemma mh_step_samples:
  assumes "mh_step rng pfunc iter alpha dims i st = Inr st'"
  shows "length (samples st') = length (samples st) + (if 0 < i then 1 else 0)"
  using assms
  by (auto simp: mh_step_def Let_def split: sum.splits prod.splits if_splits)

lemma mh_loop_samples:
  "mh_loop rng pfunc iter alpha dims idx st = Inr st' \<Longrightarrow>
   length (samples st') = length (samples st) + length (filter (\<lambda>i. 0 < i) idx)"
proof (induction idx arbitrary: st)
  case Nil
  then show ?case by simp
next
  case (Cons i idx)
  from Cons.prems obtain st1 where
    step: "mh_step rng pfunc iter alpha dims i st = Inr st1"
    and rest: "mh_loop rng pfunc iter alpha dims idx st1 = Inr st'"
    by (auto split: sum.splits)
  from mh_step_samples [OF step] Cons.IH [OF rest] show ?case by simp
qed

lemma filter_pos_upt: "length (filter (\<lambda>i. 0 < i) [0..<n]) = n - 1"
  by (induction n) auto

lemma metropolis_hastings_samples:
  assumes "metropolis_hastings rng pfunc iter alpha dims g = Inr ((smp, rr, tst), g')"
  shows "length smp = iter - 1"
  using assms mh_loop_samples [of rng pfunc iter alpha dims "[0..<iter]"]
  by (auto simp: metropolis_hastings_def Let_def filter_pos_upt split: prod.splits sum.splits)

lemma q_loop_sum:
  "fst (q_loop qfunc alpha xs acc tst) = acc + sum_list (map (\<lambda>x. qfunc x alpha) xs)"
  by (induction xs arbitrary: acc tst) (simp_all add: add.assoc)

text \<open>
  With the observable constantly 1, every walker's entry of \<open>vals\<close> is the number of its
  samples, \<open>sample_iter - 1\<close>, divided by \<open>sample_iter\<close>.
\<close>

lemma integrator_loop_vals:
  assumes "integrator_loop rng pfunc one_func n alpha dims idx vals tst lw g = Inr (vals', tst', lw', g')"
  shows "length vals' = length vals
       \<and> (\<forall>j < length vals. vals' ! j = (if j \<in> set idx then real (n - 1) / real n else vals ! j))
       \<and> (idx \<noteq> [] \<longrightarrow> n \<noteq> 0)"
  using assms
proof (induction idx arbitrary: vals tst lw g)
  case Nil
  then show ?case by simp
next
  case (Cons i idx)
  from Cons.prems obtain smp rej p g1 where
    mh: "metropolis_hastings rng pfunc n alpha dims g = Inr ((smp, rej, p), g1)"
    by (cases "metropolis_hastings rng pfunc n alpha dims g") auto
  obtain qs tst1 where q: "q_loop one_func alpha smp 0 tst = (qs, tst1)"
    by (cases "q_loop one_func alpha smp 0 tst")
  have "qs = fst (q_loop one_func alpha smp 0 tst)" using q by simp
  also have "\<dots> = real (length smp)"
    by (simp add: q_loop_sum one_func_def sum_list_triv)
  finally have qs: "qs = real (n - 1)"
    using metropolis_hastings_samples [OF mh] by simp
  have unfolded: "integrator_loop rng pfunc one_func n alpha dims (i # idx) vals tst lw g =
      (case py_truediv qs (real n) of
         Inl e \<Rightarrow> Inl e
       | Inr v \<Rightarrow> integrator_loop rng pfunc one_func n alpha dims idx (vals[i := v]) tst1
            (Some (rej, p)) g1)"
    by (simp add: mh q)
  from Cons.prems unfolded obtain v where
    v: "py_truediv qs (real n) = Inr v"
    and rest: "integrator_loop rng pfunc one_func n alpha dims idx (vals[i := v]) tst1 (Some (rej, p)) g1
        = Inr (vals', tst', lw', g')"
    by (cases "py_truediv qs (real n)") auto
  from v qs have n0: "n \<noteq> 0" and vv: "v = real (n - 1) / real n"
    by (auto simp: py_truediv_def split: if_splits)
  from Cons.IH [OF rest] have
    len: "length vals' = length vals"
    and vals: "\<forall>j < length vals. vals' ! j =
        (if j \<in> set idx then real (n - 1) / real n else (vals[i := v]) ! j)"
    by simp_all
  have "\<forall>j < length vals. vals' ! j = (if j \<in> set (i # idx) then real (n - 1) / real n else vals ! j)"
    using vals vv by (auto simp: nth_list_update)
  then show ?case using len n0 by simp
qed

text \<open>
  Claim C9. The first component returned by \<open>integrator_mcmc\<close> is meant to be the mean over
  walkers of the per-walker arithmetic averages of the observable, each the sum of the
  sampled values divided by the number of samples taken. The code divides each sum by
  \<open>sample_iter\<close>, one more than the number of samples: for the observable that is 1 at every
  point, whose average over any samples is 1, every run that returns gives
  \<open>(sample_iter - 1) / sample_iter\<close>, which is not 1.
\<close>

theorem integrator_mcmc_unit_observable:
  assumes "integrator_mcmc rng pfunc one_func sample_iter walkers alpha dims g =
             Inr ((vals_avg, std_error, rejects, tst, p), g')"
  shows "vals_avg = real (sample_iter - 1) / real sample_iter \<and> vals_avg \<noteq> 1"
proof -
  let ?loop = "integrator_loop rng pfunc one_func sample_iter alpha dims [0..<walkers]
             (replicate walkers 0) [] None g"
  from assms obtain vals tst0 lw g0 where
    loop: "?loop = Inr (vals, tst0, lw, g0)"
    by (cases ?loop) (auto simp: integrator_mcmc_def)
  from assms loop have "py_truediv (sum_list vals) (real walkers) = Inr vals_avg"
    by (cases "py_truediv (sum_list vals) (real walkers)"; cases lw)
       (auto simp: integrator_mcmc_def Let_def)
  then have w0: "walkers \<noteq> 0" and a: "vals_avg = sum_list vals / real walkers"
    by (auto simp: py_truediv_def split: if_splits)
  let ?c = "real (sample_iter - 1) / real sample_iter"
  from integrator_loop_vals [OF loop] w0 have
    len: "length vals = walkers"
    and all: "\<forall>j < walkers. vals ! j = ?c"
    and n0: "sample_iter \<noteq> 0"
    by auto
  have "\<forall>x \<in> set vals. x = ?c" using len all by (auto simp: in_set_conv_nth)
  then have "replicate (length vals) ?c = vals" by (rule replicate_length_same)
  then have "sum_list vals = sum_list (replicate walkers ?c)" using len by simp
  also have "\<dots> = real walkers * ?c" by (simp add: sum_list_replicate)
  finally have eq: "vals_avg = ?c" using a w0 by simp
  have "real (sample_iter - 1) \<noteq> real sample_iter" using n0 by simp
  then have "?c \<noteq> 1" using n0 by simp
  then show ?thesis using eq by simp
qed

theorem integrator_mcmc_unit_observable_witness:
  "integrator_mcmc test_rng one_func one_func 2 1 0 6 0 = Inr ((1 / 2, 0, 0, [1], [0]), 16)
   \<and> (1 / 2 :: real) = real (2 - 1) / real 2 \<and> (1 / 2 :: real) \<noteq> 1"
proof -
  have run: "integrator_mcmc test_rng one_func one_func 2 1 0 6 0 = Inr ((1 / 2, 0, 0, [1], [0]), 16)"
    by (rule integrator_mcmc_two_iterations)
  from integrator_mcmc_unit_observable [OF run] run show ?thesis by blast
qed

end
